theory Spec2Isabelle
  imports
    Main
    "HOL-Library.Word"
    "HOL-Library.Sublist"
    "HOL-Library.Char_ord"
    "HOL-Library.List_Lexorder"
    "HOL-Library.AList"
begin

unbundle bit_operations_syntax

section \<open>Go strings and the string helpers the sources call\<close>

text \<open>
  A Go \<^verbatim>\<open>string\<close> is a sequence of bytes; \<^verbatim>\<open>len(s)\<close> counts bytes and
  \<^verbatim>\<open>s[i]\<close> reads one byte. The model uses \<^typ>\<open>string\<close>, a list of 8-bit
  characters, so \<^const>\<open>length\<close> is \<^verbatim>\<open>len\<close>.
\<close>

text \<open>\<^verbatim>\<open>strings.HasPrefix(s, p)\<close> is \<^term>\<open>prefix p s\<close>.\<close>

text \<open>\<^verbatim>\<open>strings.Contains(s, substr)\<close>: some suffix of \<open>s\<close> starts with \<open>substr\<close>.\<close>

primrec Contains :: "string \<Rightarrow> string \<Rightarrow> bool" where
  "Contains [] substr = (substr = [])"
| "Contains (c # cs) substr = (prefix substr (c # cs) \<or> Contains cs substr)"

text \<open>
  \<^verbatim>\<open>strings.Index(s, substr)\<close>: the byte offset of the first occurrence, or \<open>-1\<close>.
\<close>

primrec Index :: "string \<Rightarrow> string \<Rightarrow> int" where
  "Index [] substr = (if substr = [] then 0 else - 1)"
| "Index (c # cs) substr =
     (if prefix substr (c # cs) then 0
      else (let r = Index cs substr in if r = - 1 then - 1 else r + 1))"

section \<open>PasswordCipher: \<^verbatim>\<open>internal/http.go\<close>\<close>

text \<open>
  \<^verbatim>\<open>specialMerge\<close> runs \<^verbatim>\<open>for i := 0; i < maxLen; i++\<close> and appends
  \<^verbatim>\<open>password[i]\<close> and \<^verbatim>\<open>seedValue[i]\<close> to a builder, each one only while \<open>i\<close> is
  inside the respective string. The loop is the recursive function below, with the
  builder as accumulator.
\<close>

function specialMerge_loop :: "string \<Rightarrow> string \<Rightarrow> nat \<Rightarrow> nat \<Rightarrow> string \<Rightarrow> string" where
  "specialMerge_loop password seedValue maxLen i result =
     (if i < maxLen then
        (let result1 = (if i < length password then result @ [password ! i] else result);
             result2 = (if i < length seedValue then result1 @ [seedValue ! i] else result1)
         in specialMerge_loop password seedValue maxLen (Suc i) result2)
      else result)"
  by pat_completeness auto
termination
  by (relation "measure (\<lambda>(password, seedValue, maxLen, i, result). maxLen - i)") auto

declare specialMerge_loop.simps [simp del]

definition specialMerge :: "string \<Rightarrow> string \<Rightarrow> string" where
  "specialMerge password seedValue =
     (let maxLen0 = length password;
          maxLen = (if length seedValue > maxLen0 then length seedValue else maxLen0)
      in specialMerge_loop password seedValue maxLen 0 [])"

text \<open>
  \<^verbatim>\<open>fmt.Sprintf("%x", hash)\<close> on a byte array writes two lowercase hexadecimal digits
  per byte.
\<close>

definition hexdigit :: "nat \<Rightarrow> char" where
  "hexdigit n = ''0123456789abcdef'' ! (n mod 16)"

definition hex_byte :: "8 word \<Rightarrow> string" where
  "hex_byte b = [hexdigit (unat b div 16), hexdigit (unat b mod 16)]"

definition Sprintf_x :: "8 word list \<Rightarrow> string" where
  "Sprintf_x bs = concat (map hex_byte bs)"

text \<open>
  \<^verbatim>\<open>md5.Sum\<close> belongs to Go's \<^verbatim>\<open>crypto/md5\<close>, not to this repository: it is the
  parameter \<open>md5_Sum\<close>, from the bytes of the message to the 16 bytes of the digest.
\<close>

definition EncryptPasswordWithSeed :: "(string \<Rightarrow> 8 word list) \<Rightarrow> string \<Rightarrow> string \<Rightarrow> string" where
  "EncryptPasswordWithSeed md5_Sum password seedValue =
     (let mergedStr = specialMerge password seedValue;
          hash = md5_Sum mergedStr
      in Sprintf_x hash)"

definition EncryptPassword :: "(string \<Rightarrow> 8 word list) \<Rightarrow> string \<Rightarrow> string" where
  "EncryptPassword md5_Sum password = Sprintf_x (md5_Sum password)"

text \<open>
  The interleaving as the specification words it: \<open>password[0], seed[0], password[1],
  seed[1], \<dots>\<close>, and past the end of the shorter string the rest of the longer one.
\<close>

fun interleave :: "'a list \<Rightarrow> 'a list \<Rightarrow> 'a list" where
  "interleave [] ys = ys"
| "interleave xs [] = xs"
| "interleave (x # xs) (y # ys) = x # y # interleave xs ys"

section \<open>ModelDetector: \<^verbatim>\<open>internal/parser.go\<close>\<close>

text \<open>
  Both copies of \<^verbatim>\<open>DetectFromHTML\<close> run
  \<^verbatim>\<open>for _, model := range models { if strings.Contains(htmlContent, model) { return model } }\<close>;
  \<open>firstContained\<close> is that loop, \<open>None\<close> when it falls through.
\<close>

primrec firstContained :: "string \<Rightarrow> string list \<Rightarrow> string option" where
  "firstContained htmlContent [] = None"
| "firstContained htmlContent (model # models) =
     (if Contains htmlContent model then Some model
      else firstContained htmlContent models)"

definition specificModels :: "string list" where
  "specificModels =
     [''GS316EPP'', ''GS308EPP'', ''GS305EPP'', ''GS316EP'', ''GS308EP'', ''GS305EP'']"

text \<open>The copy that lists the most specific names first (the one with \<^verbatim>\<open>ExtractSeedValue\<close>).\<close>

definition DetectFromHTML :: "string \<Rightarrow> string" where
  "DetectFromHTML htmlContent =
     (case firstContained htmlContent specificModels of
        Some model \<Rightarrow> model
      | None \<Rightarrow>
          if Contains htmlContent ''Redirect to Login'' \<or> Contains htmlContent ''redirect''
          then ''GS30xEPx'' else '''')"

text \<open>
  The second copy: \<^verbatim>\<open>GS316EPP\<close>, then \<^verbatim>\<open>GS316EP\<close>, then the list
  \<^verbatim>\<open>{"GS305EP", "GS305EPP", "GS308EP", "GS308EPP"}\<close> in that order.
\<close>

definition DetectFromHTML_2 :: "string \<Rightarrow> string" where
  "DetectFromHTML_2 htmlContent =
     (if Contains htmlContent ''GS316EPP'' then ''GS316EPP''
      else if Contains htmlContent ''GS316EP'' then ''GS316EP''
      else (case firstContained htmlContent [''GS305EP'', ''GS305EPP'', ''GS308EP'', ''GS308EPP''] of
              Some model \<Rightarrow> model
            | None \<Rightarrow>
                if Contains htmlContent ''Redirect to Login'' \<or> Contains htmlContent ''redirect''
                then ''GS30xEPx'' else ''''))"

section \<open>More string helpers: \<^verbatim>\<open>strings.TrimSpace\<close>, \<^verbatim>\<open>strings.SplitN\<close>, decimal rendering\<close>

text \<open>
  \<^verbatim>\<open>strings.TrimSpace\<close> removes the leading and the trailing white space as Unicode
  defines it (\<^verbatim>\<open>unicode.IsSpace\<close>). On the UTF-8 bytes of a Go string these are the
  encodings of U+0009..U+000D, U+0020, U+0085, U+00A0, U+1680, U+2000..U+200A, U+2028,
  U+2029, U+202F, U+205F and U+3000; a byte that does not decode is no white space.
\<close>

definition spaceRunes :: "string list" where
  "spaceRunes =
     [[CHR 0x09], [CHR 0x0A], [CHR 0x0B], [CHR 0x0C], [CHR 0x0D], [CHR 0x20],
      [CHR 0xC2, CHR 0x85], [CHR 0xC2, CHR 0xA0],
      [CHR 0xE1, CHR 0x9A, CHR 0x80],
      [CHR 0xE2, CHR 0x80, CHR 0x80], [CHR 0xE2, CHR 0x80, CHR 0x81],
      [CHR 0xE2, CHR 0x80, CHR 0x82], [CHR 0xE2, CHR 0x80, CHR 0x83],
      [CHR 0xE2, CHR 0x80, CHR 0x84], [CHR 0xE2, CHR 0x80, CHR 0x85],
      [CHR 0xE2, CHR 0x80, CHR 0x86], [CHR 0xE2, CHR 0x80, CHR 0x87],
      [CHR 0xE2, CHR 0x80, CHR 0x88], [CHR 0xE2, CHR 0x80, CHR 0x89],
      [CHR 0xE2, CHR 0x80, CHR 0x8A],
      [CHR 0xE2, CHR 0x80, CHR 0xA8], [CHR 0xE2, CHR 0x80, CHR 0xA9],
      [CHR 0xE2, CHR 0x80, CHR 0xAF], [CHR 0xE2, CHR 0x81, CHR 0x9F],
      [CHR 0xE3, CHR 0x80, CHR 0x80]]"

text \<open>The number of bytes of the white-space rune \<open>s\<close> starts with; 0 when it starts with none.\<close>

definition leadingSpaceLen :: "string list \<Rightarrow> string \<Rightarrow> nat" where
  "leadingSpaceLen runes s = (case find (\<lambda>q. prefix q s) runes of None \<Rightarrow> 0 | Some q \<Rightarrow> length q)"

function trimLeading :: "string list \<Rightarrow> string \<Rightarrow> string" where
  "trimLeading runes s =
     (let n = leadingSpaceLen runes s in
      if n = 0 \<or> s = [] then s else trimLeading runes (drop n s))"
  by pat_completeness auto
termination
  by (relation "measure (\<lambda>(runes, s). length s)") auto

declare trimLeading.simps [simp del]

definition TrimLeftSpace :: "string \<Rightarrow> string" where
  "TrimLeftSpace s = trimLeading spaceRunes s"

text \<open>The trailing side decodes the last rune; on the reversed bytes that is the leading side.\<close>

definition TrimRightSpace :: "string \<Rightarrow> string" where
  "TrimRightSpace s = rev (trimLeading (map rev spaceRunes) (rev s))"

definition TrimSpace :: "string \<Rightarrow> string" where
  "TrimSpace s = TrimRightSpace (TrimLeftSpace s)"

text \<open>
  \<^verbatim>\<open>strings.SplitN(s, sep, n)\<close> for a non-empty separator and \<open>n > 0\<close>: at most \<open>n\<close>
  pieces, the last one the unsplit remainder.
\<close>

fun SplitN_loop :: "string \<Rightarrow> string \<Rightarrow> nat \<Rightarrow> string list" where
  "SplitN_loop s sep 0 = [s]"
| "SplitN_loop s sep (Suc k) =
     (let m = Index s sep in
      if m < 0 then [s]
      else take (nat m) s # SplitN_loop (drop (nat m + length sep) s) sep k)"

definition SplitN :: "string \<Rightarrow> string \<Rightarrow> nat \<Rightarrow> string list" where
  "SplitN s sep n = SplitN_loop s sep (n - 1)"

text \<open>\<^verbatim>\<open>%d\<close> of an unsigned value, and \<^verbatim>\<open>strconv.Itoa\<close> of an \<^verbatim>\<open>int\<close>.\<close>

definition digit :: "nat \<Rightarrow> char" where
  "digit n = ''0123456789'' ! (n mod 10)"

function decimal :: "nat \<Rightarrow> string" where
  "decimal n = (if n < 10 then [digit n] else decimal (n div 10) @ [digit (n mod 10)])"
  by pat_completeness auto
termination
  by (relation "measure id") auto

declare decimal.simps [simp del]

definition Itoa :: "int \<Rightarrow> string" where
  "Itoa i = (if i < 0 then CHR ''-'' # decimal (nat (- i)) else decimal (nat i))"

section \<open>Models: \<^verbatim>\<open>types.go\<close>\<close>

type_synonym Model = string

definition ModelGS305EP :: Model where "ModelGS305EP = ''GS305EP''"
definition ModelGS305EPP :: Model where "ModelGS305EPP = ''GS305EPP''"
definition ModelGS308EP :: Model where "ModelGS308EP = ''GS308EP''"
definition ModelGS308EPP :: Model where "ModelGS308EPP = ''GS308EPP''"
definition ModelGS316EP :: Model where "ModelGS316EP = ''GS316EP''"
definition ModelGS316EPP :: Model where "ModelGS316EPP = ''GS316EPP''"
definition ModelGS30xEPx :: Model where "ModelGS30xEPx = ''GS30xEPx''"

definition IsModel30x :: "Model \<Rightarrow> bool" where
  "IsModel30x m =
     (m = ModelGS305EP \<or> m = ModelGS305EPP \<or> m = ModelGS308EP \<or> m = ModelGS308EPP
      \<or> m = ModelGS30xEPx)"

definition IsModel316 :: "Model \<Rightarrow> bool" where
  "IsModel316 m = (m = ModelGS316EP \<or> m = ModelGS316EPP)"

definition IsSupported :: "Model \<Rightarrow> bool" where
  "IsSupported m =
     (m = ModelGS305EP \<or> m = ModelGS305EPP \<or> m = ModelGS308EP \<or> m = ModelGS308EPP
      \<or> m = ModelGS316EP \<or> m = ModelGS316EPP \<or> m = ModelGS30xEPx)"

section \<open>Errors: \<^verbatim>\<open>errors.go\<close>\<close>

datatype ErrorType =
  ErrorTypeAuth | ErrorTypeNetwork | ErrorTypeParsing | ErrorTypeModel | ErrorTypeOperation

datatype oserr = ENOENT | EACCES

text \<open>
  A Go \<^verbatim>\<open>error\<close> value: an error of the operating system or of the HTTP library, this
  package's \<^verbatim>\<open>*Error{Type, Message, Cause}\<close>, or \<^verbatim>\<open>fmt.Errorf("<text>: %w", err)\<close>.
\<close>

datatype GoError =
    OSError oserr
  | LibError string
  | Error ErrorType string "GoError option"
  | Errorf string GoError

definition NewError :: "ErrorType \<Rightarrow> string \<Rightarrow> GoError option \<Rightarrow> GoError" where
  "NewError errorType message cause = Error errorType message cause"

definition NewAuthError :: "string \<Rightarrow> GoError option \<Rightarrow> GoError" where
  "NewAuthError message cause = NewError ErrorTypeAuth message cause"

definition NewNetworkError :: "string \<Rightarrow> GoError option \<Rightarrow> GoError" where
  "NewNetworkError message cause = NewError ErrorTypeNetwork message cause"

definition NewParsingError :: "string \<Rightarrow> GoError option \<Rightarrow> GoError" where
  "NewParsingError message cause = NewError ErrorTypeParsing message cause"

definition NewModelError :: "string \<Rightarrow> GoError option \<Rightarrow> GoError" where
  "NewModelError message cause = NewError ErrorTypeModel message cause"

definition NewOperationError :: "string \<Rightarrow> GoError option \<Rightarrow> GoError" where
  "NewOperationError message cause = NewError ErrorTypeOperation message cause"

definition ErrNotAuthenticated :: GoError where
  "ErrNotAuthenticated = Error ErrorTypeAuth ''not authenticated'' None"

definition ErrModelNotDetected :: GoError where
  "ErrModelNotDetected = Error ErrorTypeModel ''could not detect switch model'' None"

definition ErrInvalidCredentials :: GoError where
  "ErrInvalidCredentials = Error ErrorTypeAuth ''invalid credentials'' None"

text \<open>The \<^verbatim>\<open>Type\<close> field of this package's errors; \<open>None\<close> for any other error value.\<close>

fun errorKind :: "GoError \<Rightarrow> ErrorType option" where
  "errorKind (Error t m c) = Some t"
| "errorKind e = None"

section \<open>The file system the durable token store writes to\<close>

text \<open>
  The files by path, and the paths on which the operating system refuses an operation.
  \<^verbatim>\<open>os.ReadFile\<close> and \<^verbatim>\<open>os.Remove\<close> fail with \<open>ENOENT\<close> on a missing file;
  every operation fails with \<open>EACCES\<close> on a refused path.
\<close>

record filesystem =
  files :: "string \<rightharpoonup> string"
  denied :: "string set"

definition os_ReadFile :: "filesystem \<Rightarrow> string \<Rightarrow> GoError + string" where
  "os_ReadFile fs name =
     (if name \<in> denied fs then Inl (OSError EACCES)
      else case files fs name of None \<Rightarrow> Inl (OSError ENOENT) | Some data \<Rightarrow> Inr data)"

definition os_WriteFile :: "filesystem \<Rightarrow> string \<Rightarrow> string \<Rightarrow> GoError option \<times> filesystem" where
  "os_WriteFile fs name data =
     (if name \<in> denied fs then (Some (OSError EACCES), fs)
      else (None, fs\<lparr>files := (files fs)(name \<mapsto> data)\<rparr>))"

definition os_MkdirAll :: "filesystem \<Rightarrow> string \<Rightarrow> GoError option \<times> filesystem" where
  "os_MkdirAll fs path = (if path \<in> denied fs then (Some (OSError EACCES), fs) else (None, fs))"

definition os_Remove :: "filesystem \<Rightarrow> string \<Rightarrow> GoError option \<times> filesystem" where
  "os_Remove fs name =
     (if name \<in> denied fs then (Some (OSError EACCES), fs)
      else case files fs name of
             None \<Rightarrow> (Some (OSError ENOENT), fs)
           | Some data \<Rightarrow> (None, fs\<lparr>files := (files fs)(name := None)\<rparr>))"

definition os_IsNotExist :: "GoError \<Rightarrow> bool" where
  "os_IsNotExist err = (err = OSError ENOENT)"

text \<open>
  \<^verbatim>\<open>filepath.Join\<close>: the non-empty elements, separated by \<open>/\<close>. (Go also cleans the
  result lexically; the elements joined here are used as they are.)
\<close>

fun joinWith :: "string \<Rightarrow> string list \<Rightarrow> string" where
  "joinWith sep [] = []"
| "joinWith sep [x] = x"
| "joinWith sep (x # y # ys) = x @ sep @ joinWith sep (y # ys)"

definition filepath_Join :: "string list \<Rightarrow> string" where
  "filepath_Join elems = joinWith ''/'' (filter (\<lambda>e. e \<noteq> []) elems)"

text \<open>\<^verbatim>\<open>hash/fnv\<close>'s 32-bit FNV-1a: xor the byte in, multiply by the prime, modulo \<open>2^32\<close>.\<close>

definition fnv32a :: "string \<Rightarrow> 32 word" where
  "fnv32a bytes = foldl (\<lambda>h b. (h XOR of_char b) * 16777619) 2166136261 bytes"

section \<open>TokenStore: \<^verbatim>\<open>auth.go\<close>\<close>

type_synonym tokenData = "string \<times> Model"

text \<open>
  The two implementations of the \<^verbatim>\<open>TokenManager\<close> interface. The volatile one owns its
  map; the durable one owns a directory name, and its entries are files.
\<close>

datatype TokenManager =
    MemoryTokenManager "string \<rightharpoonup> tokenData"
  | FileTokenManager string

definition NewMemoryTokenManager :: TokenManager where
  "NewMemoryTokenManager = MemoryTokenManager Map.empty"

text \<open>\<open>tmp\<close> is \<^verbatim>\<open>os.TempDir()\<close>.\<close>

definition NewFileTokenManager :: "string \<Rightarrow> string \<Rightarrow> TokenManager" where
  "NewFileTokenManager tmp dir =
     FileTokenManager (if dir = [] then filepath_Join [tmp, ''.config'', ''ntgrrc''] else dir)"

definition Memory_GetToken :: "(string \<rightharpoonup> tokenData) \<Rightarrow> string \<Rightarrow> GoError + (string \<times> Model)" where
  "Memory_GetToken tokens address =
     (case tokens address of
        None \<Rightarrow> Inl (NewAuthError ''token not found'' None)
      | Some data \<Rightarrow> Inr (fst data, snd data))"

definition Memory_StoreToken ::
  "(string \<rightharpoonup> tokenData) \<Rightarrow> string \<Rightarrow> string \<Rightarrow> Model \<Rightarrow> GoError option \<times> (string \<rightharpoonup> tokenData)" where
  "Memory_StoreToken tokens address token model = (None, tokens(address \<mapsto> (token, model)))"

definition Memory_DeleteToken ::
  "(string \<rightharpoonup> tokenData) \<Rightarrow> string \<Rightarrow> GoError option \<times> (string \<rightharpoonup> tokenData)" where
  "Memory_DeleteToken tokens address = (None, tokens(address := None))"

definition getTokenFilename :: "string \<Rightarrow> string \<Rightarrow> string \<Rightarrow> string" where
  "getTokenFilename tmp dir address =
     (let hash = fnv32a address;
          tokenDir = (if dir = [] then tmp else dir)
      in filepath_Join [tokenDir, ''.config'', ''ntgrrc'', ''token-'' @ decimal (unat hash)])"

definition File_GetToken ::
  "string \<Rightarrow> filesystem \<Rightarrow> string \<Rightarrow> string \<Rightarrow> GoError + (string \<times> Model)" where
  "File_GetToken tmp fs dir address =
     (let tokenFile = getTokenFilename tmp dir address in
      case os_ReadFile fs tokenFile of
        Inl err \<Rightarrow> Inl (NewAuthError ''failed to read token file'' (Some err))
      | Inr content \<Rightarrow>
          if content = [] then
            Inl (NewAuthError ''token file is empty, please upgrade your token file'' None)
          else if \<not> Contains content '':'' then
            Inl (NewAuthError ''malformed token file'' None)
          else
            (let parts = SplitN content '':'' 2 in
             if length parts \<noteq> 2 then Inl (NewAuthError ''malformed token file'' None)
             else
               (let modelStr = TrimSpace (parts ! 0);
                    token = TrimSpace (parts ! 1);
                    model = modelStr
                in if \<not> IsSupported model then
                     Inl (NewModelError (''unknown model '' @ [CHR 0x27] @ modelStr @ [CHR 0x27]
                                          @ '' in token file'') None)
                   else Inr (token, model))))"

definition File_StoreToken ::
  "string \<Rightarrow> filesystem \<Rightarrow> string \<Rightarrow> string \<Rightarrow> string \<Rightarrow> Model \<Rightarrow> GoError option \<times> filesystem" where
  "File_StoreToken tmp fs dir address token model =
     (let tokenDir = filepath_Join [dir, ''.config'', ''ntgrrc''] in
      case os_MkdirAll fs tokenDir of
        (Some err, fs1) \<Rightarrow> (Some (NewAuthError ''failed to create token directory'' (Some err)), fs1)
      | (None, fs1) \<Rightarrow>
          (let tokenFile = getTokenFilename tmp dir address;
               content = model @ '':'' @ token
           in case os_WriteFile fs1 tokenFile content of
                (Some err, fs2) \<Rightarrow> (Some (NewAuthError ''failed to write token file'' (Some err)), fs2)
              | (None, fs2) \<Rightarrow> (None, fs2)))"

definition File_DeleteToken ::
  "string \<Rightarrow> filesystem \<Rightarrow> string \<Rightarrow> string \<Rightarrow> GoError option \<times> filesystem" where
  "File_DeleteToken tmp fs dir address =
     (let tokenFile = getTokenFilename tmp dir address in
      case os_Remove fs tokenFile of
        (Some err, fs1) \<Rightarrow>
          if \<not> os_IsNotExist err
          then (Some (NewAuthError ''failed to delete token file'' (Some err)), fs1)
          else (None, fs1)
      | (None, fs1) \<Rightarrow> (None, fs1))"

text \<open>
  The interface calls, dispatched on the implementation. The state of a manager is the
  manager value together with the file system.
\<close>

type_synonym store = "TokenManager \<times> filesystem"

fun GetToken :: "string \<Rightarrow> store \<Rightarrow> string \<Rightarrow> GoError + (string \<times> Model)" where
  "GetToken tmp (MemoryTokenManager tokens, fs) address = Memory_GetToken tokens address"
| "GetToken tmp (FileTokenManager dir, fs) address = File_GetToken tmp fs dir address"

fun StoreToken :: "string \<Rightarrow> store \<Rightarrow> string \<Rightarrow> string \<Rightarrow> Model \<Rightarrow> GoError option \<times> store" where
  "StoreToken tmp (MemoryTokenManager tokens, fs) address token model =
     (case Memory_StoreToken tokens address token model of
        (err, tokens1) \<Rightarrow> (err, (MemoryTokenManager tokens1, fs)))"
| "StoreToken tmp (FileTokenManager dir, fs) address token model =
     (case File_StoreToken tmp fs dir address token model of
        (err, fs1) \<Rightarrow> (err, (FileTokenManager dir, fs1)))"

fun DeleteToken :: "string \<Rightarrow> store \<Rightarrow> string \<Rightarrow> GoError option \<times> store" where
  "DeleteToken tmp (MemoryTokenManager tokens, fs) address =
     (case Memory_DeleteToken tokens address of
        (err, tokens1) \<Rightarrow> (err, (MemoryTokenManager tokens1, fs)))"
| "DeleteToken tmp (FileTokenManager dir, fs) address =
     (case File_DeleteToken tmp fs dir address of
        (err, fs1) \<Rightarrow> (err, (FileTokenManager dir, fs1)))"

section \<open>Authentication families: \<^verbatim>\<open>auth.go\<close>\<close>

datatype AuthenticationType = AuthTypeSession | AuthTypeGambit

definition GetAuthenticationType :: "Model \<Rightarrow> AuthenticationType" where
  "GetAuthenticationType model = (if IsModel316 model then AuthTypeGambit else AuthTypeSession)"

section \<open>Transport: \<^verbatim>\<open>internal/http.go\<close>\<close>

text \<open>
  \<^verbatim>\<open>url.Values\<close> is a map from keys to lists of values; \<^verbatim>\<open>Set\<close> replaces the list
  of a key by one value. The model is an association list with distinct keys. A \<^verbatim>\<open>nil\<close>
  map is \<open>None\<close> where the code tells it from an empty one.
\<close>

type_synonym Values = "(string \<times> string list) list"

definition Values_Set :: "Values \<Rightarrow> string \<Rightarrow> string \<Rightarrow> Values" where
  "Values_Set v key val = AList.update key [val] v"

text \<open>
  \<^verbatim>\<open>url.QueryEscape\<close>: letters, digits and \<open>-_.~\<close> stay, a space becomes \<open>+\<close>, every
  other byte becomes \<open>%XX\<close> in upper-case hexadecimal.
\<close>

definition isAlnum :: "char \<Rightarrow> bool" where
  "isAlnum c =
     (let n = (of_char c :: nat) in
      (0x61 \<le> n \<and> n \<le> 0x7A) \<or> (0x41 \<le> n \<and> n \<le> 0x5A) \<or> (0x30 \<le> n \<and> n \<le> 0x39))"

definition shouldEscape :: "char \<Rightarrow> bool" where
  "shouldEscape c = (\<not> isAlnum c \<and> c \<notin> set ''-_.~'')"

definition upperhex :: "nat \<Rightarrow> char" where
  "upperhex n = ''0123456789ABCDEF'' ! (n mod 16)"

definition escapeByte :: "char \<Rightarrow> string" where
  "escapeByte c =
     (if c = CHR '' '' then ''+''
      else if shouldEscape c
      then [CHR ''%'', upperhex ((of_char c :: nat) div 16), upperhex ((of_char c :: nat) mod 16)]
      else [c])"

definition QueryEscape :: "string \<Rightarrow> string" where
  "QueryEscape s = concat (map escapeByte s)"

text \<open>
  \<^verbatim>\<open>Values.Encode\<close>: the keys in sorted order, each value as \<open>key=value\<close>, both
  escaped, the pairs separated by \<open>&\<close>.
\<close>

definition Values_Encode :: "Values \<Rightarrow> string" where
  "Values_Encode v =
     joinWith ''&''
       (concat (map (\<lambda>k. map (\<lambda>x. QueryEscape k @ ''='' @ QueryEscape x)
                              (case map_of v k of None \<Rightarrow> [] | Some vs \<Rightarrow> vs))
                    (sort (map fst v))))"

text \<open>
  A request as \<^verbatim>\<open>HTTPClient.request\<close> hands it to \<^verbatim>\<open>http.Client.Do\<close>, and a response as
  the code reads it: the header values by canonical key, and what \<^verbatim>\<open>io.ReadAll\<close> on the
  body returns.
\<close>

record request =
  rq_method :: string
  rq_url :: string
  rq_body :: "string option"
  rq_header :: "(string \<times> string) list"

record response =
  StatusCode :: int
  Header :: "(string \<times> string list) list"
  Body :: "GoError + string"

definition Header_Get :: "response \<Rightarrow> string \<Rightarrow> string" where
  "Header_Get resp key = (case map_of (Header resp) key of Some (v # vs) \<Rightarrow> v | _ \<Rightarrow> [])"

text \<open>
  What the network does with a request, given the requests sent before it:
  \<^verbatim>\<open>http.NewRequestWithContext\<close> rejects it, \<^verbatim>\<open>Do\<close> fails, or the device answers.
\<close>

datatype outcome = BadRequest GoError | DoFailed GoError | Response response

text \<open>
  The libraries and the machine around the code: the network with the device behind it,
  \<^verbatim>\<open>crypto/md5\<close>, \<^verbatim>\<open>regexp\<close>'s \<^verbatim>\<open>FindStringSubmatch\<close> (pattern, then content),
  goquery's \<^verbatim>\<open>doc.Find("#rand").First().Attr("value")\<close> (an error when the document does
  not parse, \<open>None\<close> when the attribute does not exist), \<^verbatim>\<open>fmt\<close>'s \<^verbatim>\<open>%.2f\<close> and
  \<^verbatim>\<open>os.TempDir()\<close>.
\<close>

typedecl float64

record env =
  net :: "request list \<Rightarrow> request \<Rightarrow> outcome"
  md5 :: "string \<Rightarrow> 8 word list"
  FindStringSubmatch :: "string \<Rightarrow> string \<Rightarrow> string list"
  rand_value :: "string \<Rightarrow> GoError + string option"
  Sprintf_2f :: "float64 \<Rightarrow> string"
  TempDir :: string

record HTTPClient =
  baseURL :: string
  hverbose :: bool

definition NewHTTPClient :: "string \<Rightarrow> bool \<Rightarrow> HTTPClient" where
  "NewHTTPClient address verb =
     \<lparr>baseURL = (if \<not> prefix ''http://'' address \<and> \<not> prefix ''https://'' address
                  then ''http://'' @ address else address),
      hverbose = verb\<rparr>"

text \<open>
  \<^verbatim>\<open>HTTPClient.request\<close>. The list \<open>sent\<close> holds the requests that went to
  \<^verbatim>\<open>Do\<close> so far; the function returns it extended. Verbose output is not part of the
  model.
\<close>

definition HTTPClient_request ::
  "env \<Rightarrow> HTTPClient \<Rightarrow> request list \<Rightarrow> string \<Rightarrow> string \<Rightarrow> string option
   \<Rightarrow> (string \<times> string) list option \<Rightarrow> (GoError + response) \<times> request list" where
  "HTTPClient_request e h sent method path body headers =
     (let fullURL = baseURL h @ path;
          hdr0 = (case headers of None \<Rightarrow> [] | Some hs \<Rightarrow> hs);
          hdr = (if (case map_of hdr0 ''User-Agent'' of None \<Rightarrow> [] | Some v \<Rightarrow> v) = []
                 then AList.update ''User-Agent'' ''ntgrrc-library/1.0'' hdr0 else hdr0);
          req = \<lparr>rq_method = method, rq_url = fullURL, rq_body = body, rq_header = hdr\<rparr>
      in case net e sent req of
           BadRequest err \<Rightarrow> (Inl (Errorf ''failed to create request'' err), sent)
         | DoFailed err \<Rightarrow> (Inl (Errorf ''request failed'' err), sent @ [req])
         | Response resp \<Rightarrow> (Inr resp, sent @ [req]))"

definition HTTPClient_Get ::
  "env \<Rightarrow> HTTPClient \<Rightarrow> request list \<Rightarrow> string \<Rightarrow> (string \<times> string) list option
   \<Rightarrow> (GoError + response) \<times> request list" where
  "HTTPClient_Get e h sent path headers = HTTPClient_request e h sent ''GET'' path None headers"

definition HTTPClient_Post ::
  "env \<Rightarrow> HTTPClient \<Rightarrow> request list \<Rightarrow> string \<Rightarrow> Values option
   \<Rightarrow> (string \<times> string) list option \<Rightarrow> (GoError + response) \<times> request list" where
  "HTTPClient_Post e h sent path data headers =
     (case data of
        Some d \<Rightarrow>
          (let body = Some (Values_Encode d);
               headers0 = (case headers of None \<Rightarrow> [] | Some hs \<Rightarrow> hs);
               headers1 = AList.update ''Content-Type'' ''application/x-www-form-urlencoded'' headers0
           in HTTPClient_request e h sent ''POST'' path body (Some headers1))
      | None \<Rightarrow> HTTPClient_request e h sent ''POST'' path None headers)"

definition ReadBody :: "response \<Rightarrow> GoError + string" where
  "ReadBody resp =
     (case Body resp of
        Inl err \<Rightarrow> Inl (Errorf ''failed to read response body'' err)
      | Inr bodyStr \<Rightarrow> Inr bodyStr)"

section \<open>Response scraping: \<^verbatim>\<open>internal/parser.go\<close>\<close>

text \<open>
  The three extractors try their patterns in order and return the first capture group
  of the first pattern that matches. The patterns are the Go raw strings, with \<open>dquote\<close> the
  double quote and \<open>bslash\<close> the backslash.
\<close>

definition dquote :: string where "dquote = [CHR 0x22]"
definition bslash :: string where "bslash = [CHR 0x5C]"

definition errorPatterns :: "string list" where
  "errorPatterns =
     [''error['' @ dquote @ bslash @ ''s]*[:=]['' @ dquote @ bslash @ ''s]*'' @ dquote @ ''([^'' @ dquote @ '']+)'' @ dquote,
      ''<div[^>]*error[^>]*>([^<]+)</div>'',
      ''alert'' @ bslash @ ''s*'' @ bslash @ ''('' @ bslash @ ''s*'' @ dquote @ ''([^'' @ dquote @ '']+)'' @ dquote
        @ bslash @ ''s*'' @ bslash @ '')'']"

definition gambitPatterns :: "string list" where
  "gambitPatterns =
     [''Gambit['' @ dquote @ bslash @ ''s]*[:=]['' @ dquote @ bslash @ ''s]*([a-fA-F0-9]+)'',
      ''gambit['' @ dquote @ bslash @ ''s]*[:=]['' @ dquote @ bslash @ ''s]*([a-fA-F0-9]+)'',
      ''rand['' @ dquote @ bslash @ ''s]*[:=]['' @ dquote @ bslash @ ''s]*([0-9]+)'']"

primrec firstSubmatch :: "env \<Rightarrow> string list \<Rightarrow> string \<Rightarrow> string option" where
  "firstSubmatch e [] content = None"
| "firstSubmatch e (pattern # patterns) content =
     (let matches = FindStringSubmatch e pattern content in
      if length matches > 1 then Some (matches ! 1) else firstSubmatch e patterns content)"

definition ExtractGambitToken :: "env \<Rightarrow> string \<Rightarrow> string" where
  "ExtractGambitToken e content =
     (case firstSubmatch e gambitPatterns content of Some m \<Rightarrow> m | None \<Rightarrow> [])"

definition ExtractErrorMessage :: "env \<Rightarrow> string \<Rightarrow> string" where
  "ExtractErrorMessage e content =
     (case firstSubmatch e errorPatterns content of Some m \<Rightarrow> TrimSpace m | None \<Rightarrow> [])"

definition ExtractSeedValue :: "env \<Rightarrow> string \<Rightarrow> string" where
  "ExtractSeedValue e content =
     (case rand_value e content of
        Inl err \<Rightarrow> []
      | Inr (Some randVal) \<Rightarrow> randVal
      | Inr None \<Rightarrow> [])"

section \<open>SessionClient: \<^verbatim>\<open>client.go\<close>\<close>

record SwitchConfig =
  Host :: string
  Password :: string
  ConfigModel :: string

text \<open>
  The \<^verbatim>\<open>PasswordManager\<close> interface as \<^verbatim>\<open>Login\<close> uses it:
  \<^verbatim>\<open>GetSwitchConfig(address)\<close>, \<open>None\<close> for \<^verbatim>\<open>found == false\<close>.
\<close>

type_synonym PasswordManager = "string \<Rightarrow> SwitchConfig option"

text \<open>
  The client of \<^verbatim>\<open>client.go\<close> has no \<^verbatim>\<open>passwordMgr\<close> field; the later version of the
  file adds it, and there the field may be \<^verbatim>\<open>nil\<close> (\<open>None\<close>).
\<close>

record Client =
  address :: string
  model :: Model
  httpClient :: HTTPClient
  token :: string
  tokenMgr :: TokenManager
  passwordMgr :: "PasswordManager option"
  verbose :: bool

text \<open>What a call can change besides the client: the requests sent, and the files.\<close>

record world =
  sent :: "request list"
  fs :: filesystem

definition IsAuthenticated :: "Client \<Rightarrow> bool" where
  "IsAuthenticated c = (token c \<noteq> [])"

definition detectModel :: "env \<Rightarrow> Client \<Rightarrow> request list \<Rightarrow> (GoError + Model) \<times> request list" where
  "detectModel e c sent0 =
     (case HTTPClient_Get e (httpClient c) sent0 ''/'' None of
        (Inl err, sent1) \<Rightarrow> (Inl (NewNetworkError ''failed to connect to switch'' (Some err)), sent1)
      | (Inr resp, sent1) \<Rightarrow>
          (case ReadBody resp of
             Inl err \<Rightarrow> (Inl (NewNetworkError ''failed to read response'' (Some err)), sent1)
           | Inr body \<Rightarrow>
               (let modelString0 = DetectFromHTML body;
                    (modelString, sent2) =
                      (if modelString0 = ''GS30xEPx'' then
                         (case HTTPClient_Get e (httpClient c) sent1 ''/login.cgi'' None of
                            (Inl err, sent2) \<Rightarrow> (modelString0, sent2)
                          | (Inr loginResp, sent2) \<Rightarrow>
                              (case ReadBody loginResp of
                                 Inl err \<Rightarrow> (modelString0, sent2)
                               | Inr loginBody \<Rightarrow>
                                   (let specificModel = DetectFromHTML loginBody in
                                    if specificModel \<noteq> [] \<and> specificModel \<noteq> ''GS30xEPx''
                                    then (specificModel, sent2) else (modelString0, sent2))))
                       else (modelString0, sent1))
                in if modelString = [] then (Inl ErrModelNotDetected, sent2)
                   else if \<not> IsSupported modelString then
                     (Inl (NewModelError (''detected model '' @ modelString @ '' is not supported'') None),
                      sent2)
                   else (Inr modelString, sent2))))"

definition getSeedValue ::
  "env \<Rightarrow> Client \<Rightarrow> request list \<Rightarrow> string \<Rightarrow> (GoError + string) \<times> request list" where
  "getSeedValue e c sent0 loginPath =
     (case HTTPClient_Get e (httpClient c) sent0 loginPath None of
        (Inl err, sent1) \<Rightarrow> (Inl err, sent1)
      | (Inr resp, sent1) \<Rightarrow>
          (case ReadBody resp of
             Inl err \<Rightarrow> (Inl err, sent1)
           | Inr body \<Rightarrow>
               (let seedValue = ExtractSeedValue e body in
                if seedValue = [] then
                  (Inl (NewAuthError ''seed value not found in login page'' None), sent1)
                else (Inr seedValue, sent1))))"

definition encryptPassword :: "env \<Rightarrow> string \<Rightarrow> string \<Rightarrow> string" where
  "encryptPassword e password seedValue = EncryptPasswordWithSeed (md5 e) password seedValue"

text \<open>
  \<^verbatim>\<open>extractSessionToken\<close>: the loop over \<^verbatim>\<open>sessionIdPrefixes\<close> returns at the first
  prefix of the cookie; the empty string when no prefix fits.
\<close>

primrec extractSessionToken_loop :: "string \<Rightarrow> string list \<Rightarrow> string" where
  "extractSessionToken_loop cookie [] = []"
| "extractSessionToken_loop cookie (pre # rest) =
     (if prefix pre cookie then
        (let sidVal = drop (length pre) cookie;
             idx = Index sidVal '';''
         in if idx \<noteq> - 1 then take (nat idx) sidVal else sidVal)
      else extractSessionToken_loop cookie rest)"

definition extractSessionToken :: "response \<Rightarrow> string" where
  "extractSessionToken resp =
     (let cookie = Header_Get resp ''Set-Cookie'';
          sessionIdPrefixes = [''SID='']
      in extractSessionToken_loop cookie sessionIdPrefixes)"

definition loginWithSession ::
  "env \<Rightarrow> Client \<Rightarrow> request list \<Rightarrow> string \<Rightarrow> (GoError + string) \<times> request list" where
  "loginWithSession e c sent0 password =
     (case getSeedValue e c sent0 ''/login.cgi'' of
        (Inl err, sent1) \<Rightarrow> (Inl (NewAuthError ''failed to get seed value'' (Some err)), sent1)
      | (Inr seedValue, sent1) \<Rightarrow>
          (let encryptedPassword = encryptPassword e password seedValue;
               data = Values_Set [] ''password'' encryptedPassword
           in case HTTPClient_Post e (httpClient c) sent1 ''/login.cgi'' (Some data) None of
                (Inl err, sent2) \<Rightarrow> (Inl (NewNetworkError ''login request failed'' (Some err)), sent2)
              | (Inr resp, sent2) \<Rightarrow>
                  (let tok = extractSessionToken resp in
                   if tok = [] then
                     (let body = (case ReadBody resp of Inl err \<Rightarrow> [] | Inr b \<Rightarrow> b);
                          errorMsg = ExtractErrorMessage e body
                      in if errorMsg \<noteq> [] then
                           (Inl (NewAuthError (''login failed: '' @ errorMsg) None), sent2)
                         else (Inl ErrInvalidCredentials, sent2))
                   else (Inr tok, sent2))))"

definition loginWithGambit ::
  "env \<Rightarrow> Client \<Rightarrow> request list \<Rightarrow> string \<Rightarrow> (GoError + string) \<times> request list" where
  "loginWithGambit e c sent0 password =
     (case getSeedValue e c sent0 ''/wmi/login'' of
        (Inl err, sent1) \<Rightarrow> (Inl (NewAuthError ''failed to get seed value'' (Some err)), sent1)
      | (Inr seedValue, sent1) \<Rightarrow>
          (let encryptedPassword = encryptPassword e password seedValue;
               data = Values_Set [] ''LoginPassword'' encryptedPassword
           in case HTTPClient_Post e (httpClient c) sent1 ''/redirect.html'' (Some data) None of
                (Inl err, sent2) \<Rightarrow>
                  (Inl (NewNetworkError ''gambit login request failed'' (Some err)), sent2)
              | (Inr resp, sent2) \<Rightarrow>
                  (case ReadBody resp of
                     Inl err \<Rightarrow>
                       (Inl (NewNetworkError ''failed to read gambit login response'' (Some err)), sent2)
                   | Inr body \<Rightarrow>
                       (let tok = ExtractGambitToken e body in
                        if tok = [] then
                          (let errorMsg = ExtractErrorMessage e body in
                           if errorMsg \<noteq> [] then
                             (Inl (NewAuthError (''gambit login failed: '' @ errorMsg) None), sent2)
                           else (Inl ErrInvalidCredentials, sent2))
                        else (Inr tok, sent2)))))"

text \<open>
  The part of \<^verbatim>\<open>Login\<close> below the check of the password, the same text in both versions
  of \<^verbatim>\<open>client.go\<close>: choose the protocol by the model, run it, keep the token, and store
  it. An error of \<^verbatim>\<open>StoreToken\<close> is only printed. (\<^verbatim>\<open>GetAuthenticationType\<close> returns one
  of two values, so the \<^verbatim>\<open>default\<close> branch of the switch has no case here.)
\<close>

definition Login_authenticate ::
  "env \<Rightarrow> Client \<Rightarrow> world \<Rightarrow> string \<Rightarrow> GoError option \<times> Client \<times> world" where
  "Login_authenticate e c w password =
     (let authType = GetAuthenticationType (model c);
          (res, sent1) =
            (case authType of
               AuthTypeSession \<Rightarrow> loginWithSession e c (sent w) password
             | AuthTypeGambit \<Rightarrow> loginWithGambit e c (sent w) password)
      in case res of
           Inl err \<Rightarrow> (Some err, c, w\<lparr>sent := sent1\<rparr>)
         | Inr tok \<Rightarrow>
             (let c1 = c\<lparr>token := tok\<rparr>;
                  (err, (tm, fs1)) = StoreToken (TempDir e) (tokenMgr c1, fs w) (address c1) tok (model c1)
              in (None, c1\<lparr>tokenMgr := tm\<rparr>, \<lparr>sent = sent1, fs = fs1\<rparr>)))"

text \<open>\<^verbatim>\<open>Login\<close> of \<^verbatim>\<open>client.go\<close>.\<close>

definition Login :: "env \<Rightarrow> Client \<Rightarrow> world \<Rightarrow> string \<Rightarrow> GoError option \<times> Client \<times> world" where
  "Login e c w password =
     (if password = [] then (Some (NewAuthError ''password cannot be empty'' None), c, w)
      else Login_authenticate e c w password)"

text \<open>\<^verbatim>\<open>Login\<close> of the version of \<^verbatim>\<open>client.go\<close> with a password manager.\<close>

definition Login_pm :: "env \<Rightarrow> Client \<Rightarrow> world \<Rightarrow> string \<Rightarrow> GoError option \<times> Client \<times> world" where
  "Login_pm e c w password =
     (if password = [] then
        (case passwordMgr c of
           Some pm \<Rightarrow>
             (case pm (address c) of
                Some config \<Rightarrow> Login_authenticate e c w (Password config)
              | None \<Rightarrow>
                  (Some (NewAuthError ''no password provided and no environment variable found'' None),
                   c, w))
         | None \<Rightarrow> (Some (NewAuthError ''password cannot be empty'' None), c, w))
      else Login_authenticate e c w password)"

definition Logout :: "env \<Rightarrow> Client \<Rightarrow> world \<Rightarrow> GoError option \<times> Client \<times> world" where
  "Logout e c w =
     (let c1 = c\<lparr>token := []\<rparr>;
          (err, (tm, fs1)) = DeleteToken (TempDir e) (tokenMgr c1, fs w) (address c1)
      in (None, c1\<lparr>tokenMgr := tm\<rparr>, w\<lparr>fs := fs1\<rparr>))"

text \<open>
  \<^verbatim>\<open>makeAuthenticatedRequest\<close>. \<open>data\<close> is \<open>None\<close> for a \<^verbatim>\<open>nil\<close> map. The function
  returns the body of the response and the requests sent.
\<close>

definition makeAuthenticatedRequest ::
  "env \<Rightarrow> Client \<Rightarrow> request list \<Rightarrow> string \<Rightarrow> string \<Rightarrow> Values option
   \<Rightarrow> (GoError + string) \<times> request list" where
  "makeAuthenticatedRequest e c sent0 method path data =
     (if \<not> IsAuthenticated c then (Inl ErrNotAuthenticated, sent0)
      else
        (let authType = GetAuthenticationType (model c);
             headers = (case authType of
                          AuthTypeSession \<Rightarrow> AList.update ''Cookie'' (''SID='' @ token c) []
                        | AuthTypeGambit \<Rightarrow> []);
             data1 = (case authType of
                        AuthTypeSession \<Rightarrow> data
                      | AuthTypeGambit \<Rightarrow>
                          Some (Values_Set (case data of None \<Rightarrow> [] | Some d \<Rightarrow> d) ''Gambit'' (token c)))
         in if method = ''GET'' then
              (let path1 = (if length (case data1 of None \<Rightarrow> [] | Some d \<Rightarrow> d) > 0
                            then path @ ''?'' @ Values_Encode (case data1 of None \<Rightarrow> [] | Some d \<Rightarrow> d)
                            else path)
               in case HTTPClient_Get e (httpClient c) sent0 path1 (Some headers) of
                    (Inl err, sent1) \<Rightarrow> (Inl (NewNetworkError ''GET request failed'' (Some err)), sent1)
                  | (Inr httpResp, sent1) \<Rightarrow> (ReadBody httpResp, sent1))
            else
              (case HTTPClient_Post e (httpClient c) sent0 path data1 (Some headers) of
                 (Inl err, sent1) \<Rightarrow> (Inl (NewNetworkError ''POST request failed'' (Some err)), sent1)
               | (Inr httpResp, sent1) \<Rightarrow> (ReadBody httpResp, sent1))))"

section \<open>Partial updates: \<^verbatim>\<open>types.go\<close>, \<^verbatim>\<open>ports.go\<close>, \<^verbatim>\<open>poe.go\<close>\<close>

text \<open>A pointer field that may be \<^verbatim>\<open>nil\<close> is an option.\<close>

record PortUpdate =
  PortID :: int
  Name :: "string option"
  Speed :: "string option"
  IngressLimit :: "string option"
  EgressLimit :: "string option"
  FlowControl :: "bool option"

record POEPortUpdate =
  poe_PortID :: int
  Enabled :: "bool option"
  Mode :: "string option"
  Priority :: "string option"
  PowerLimitType :: "string option"
  PowerLimitW :: "float64 option"
  DetectionType :: "string option"

definition setIf :: "string \<Rightarrow> string option \<Rightarrow> Values \<Rightarrow> Values" where
  "setIf key field data = (case field of None \<Rightarrow> data | Some v \<Rightarrow> Values_Set data key v)"

text \<open>The form of one port update: the port, then each field that is present.\<close>

definition PortUpdate_data :: "PortUpdate \<Rightarrow> Values" where
  "PortUpdate_data update =
     (let data0 = Values_Set [] ''port'' (Itoa (PortID update));
          data1 = setIf ''name'' (Name update) data0;
          data2 = setIf ''speed'' (Speed update) data1;
          data3 = setIf ''ingress_limit'' (IngressLimit update) data2;
          data4 = setIf ''egress_limit'' (EgressLimit update) data3
      in (case FlowControl update of
            None \<Rightarrow> data4
          | Some b \<Rightarrow> Values_Set data4 ''flow_control'' (if b then ''on'' else ''off'')))"

definition POEPortUpdate_data :: "env \<Rightarrow> POEPortUpdate \<Rightarrow> Values" where
  "POEPortUpdate_data e update =
     (let data0 = Values_Set [] ''port'' (Itoa (poe_PortID update));
          data1 = (case Enabled update of
                     None \<Rightarrow> data0
                   | Some b \<Rightarrow> Values_Set data0 ''enabled'' (if b then ''1'' else ''0''));
          data2 = setIf ''mode'' (Mode update) data1;
          data3 = setIf ''priority'' (Priority update) data2;
          data4 = setIf ''power_limit_type'' (PowerLimitType update) data3;
          data5 = setIf ''power_limit_w'' (map_option (Sprintf_2f e) (PowerLimitW update)) data4
      in setIf ''detection_type'' (DetectionType update) data5)"

text \<open>
  The loop \<^verbatim>\<open>for _, update := range updates\<close> of both \<^verbatim>\<open>UpdatePort\<close> methods: post
  the form of each update, stop at the first failure. The arguments are the identifier
  and the form of each update.
\<close>

fun UpdatePort_loop ::
  "env \<Rightarrow> Client \<Rightarrow> request list \<Rightarrow> string \<Rightarrow> (int \<times> Values) list
   \<Rightarrow> GoError option \<times> request list" where
  "UpdatePort_loop e c sent0 endpoint [] = (None, sent0)"
| "UpdatePort_loop e c sent0 endpoint ((portID, data) # updates) =
     (case makeAuthenticatedRequest e c sent0 ''POST'' endpoint (Some data) of
        (Inl err, sent1) \<Rightarrow>
          (Some (NewOperationError (''failed to update port '' @ Itoa portID) (Some err)), sent1)
      | (Inr resp, sent1) \<Rightarrow>
          (let errorMsg = ExtractErrorMessage e resp in
           if errorMsg \<noteq> [] then
             (Some (NewOperationError
                      (''update failed for port '' @ Itoa portID @ '': '' @ errorMsg) None), sent1)
           else UpdatePort_loop e c sent1 endpoint updates))"

text \<open>\<^verbatim>\<open>PortManager.UpdatePort\<close>.\<close>

definition Ports_UpdatePort ::
  "env \<Rightarrow> Client \<Rightarrow> request list \<Rightarrow> PortUpdate list \<Rightarrow> GoError option \<times> request list" where
  "Ports_UpdatePort e c sent0 updates =
     (if \<not> IsAuthenticated c then (Some ErrNotAuthenticated, sent0)
      else if length updates = 0 then (Some (NewOperationError ''no updates provided'' None), sent0)
      else if IsModel30x (model c) then
        UpdatePort_loop e c sent0 ''/PortConfig.cgi''
          (map (\<lambda>u. (PortID u, PortUpdate_data u)) updates)
      else if IsModel316 (model c) then
        UpdatePort_loop e c sent0 ''/iss/specific/interface.html''
          (map (\<lambda>u. (PortID u, PortUpdate_data u)) updates)
      else (Some (NewOperationError ''port updates not supported for this model'' None), sent0))"

text \<open>\<^verbatim>\<open>POEManager.UpdatePort\<close>.\<close>

definition POE_UpdatePort ::
  "env \<Rightarrow> Client \<Rightarrow> request list \<Rightarrow> POEPortUpdate list \<Rightarrow> GoError option \<times> request list" where
  "POE_UpdatePort e c sent0 updates =
     (if \<not> IsAuthenticated c then (Some ErrNotAuthenticated, sent0)
      else if length updates = 0 then (Some (NewOperationError ''no updates provided'' None), sent0)
      else if IsModel30x (model c) then
        UpdatePort_loop e c sent0 ''/PoEPortConfig.cgi''
          (map (\<lambda>u. (poe_PortID u, POEPortUpdate_data e u)) updates)
      else if IsModel316 (model c) then
        UpdatePort_loop e c sent0 ''/iss/specific/poePortConf.html''
          (map (\<lambda>u. (poe_PortID u, POEPortUpdate_data e u)) updates)
      else (Some (NewOperationError ''POE updates not supported for this model'' None), sent0))"

text \<open>The updates the invariant of the specification speaks of: no optional field is set.\<close>

definition PortUpdate_empty :: "PortUpdate \<Rightarrow> bool" where
  "PortUpdate_empty u =
     (Name u = None \<and> Speed u = None \<and> IngressLimit u = None \<and> EgressLimit u = None
      \<and> FlowControl u = None)"

definition POEPortUpdate_empty :: "POEPortUpdate \<Rightarrow> bool" where
  "POEPortUpdate_empty u =
     (Enabled u = None \<and> Mode u = None \<and> Priority u = None \<and> PowerLimitType u = None
      \<and> PowerLimitW u = None \<and> DetectionType u = None)"

text \<open>A byte of printable ASCII other than the space, used to state what \<open>TrimSpace\<close> keeps.\<close>

definition graphic :: "char \<Rightarrow> bool" where
  "graphic c = (0x21 \<le> (of_char c :: nat) \<and> (of_char c :: nat) \<le> 0x7E)"

section \<open>Properties of the password cipher\<close>

lemma specialMerge_loop_interleave:
  "maxLen = max (length password) (length seedValue) \<Longrightarrow>
   specialMerge_loop password seedValue maxLen i result =
     result @ interleave (drop i password) (drop i seedValue)"
proof (induction password seedValue maxLen i result rule: specialMerge_loop.induct)
  case (1 password seedValue maxLen i result)
  show ?case
  proof (cases "i < maxLen")
    case False
    with "1.prems" have "drop i password = []" "drop i seedValue = []" by auto
    with False show ?thesis by (simp add: specialMerge_loop.simps)
  next
    case True
    note IH = "1.IH" [OF True refl refl "1.prems"]
    show ?thesis
    proof (cases "i < length password")
      case p: True
      then have dp: "drop i password = password ! i # drop (Suc i) password"
        by (simp add: Cons_nth_drop_Suc)
      show ?thesis
      proof (cases "i < length seedValue")
        case s: True
        then have ds: "drop i seedValue = seedValue ! i # drop (Suc i) seedValue"
          by (simp add: Cons_nth_drop_Suc)
        show ?thesis
          using True p s IH by (subst specialMerge_loop.simps) (simp add: dp ds)
      next
        case s: False
        then have ds: "drop i seedValue = []" "drop (Suc i) seedValue = []" by auto
        have il: "interleave (password ! i # drop (Suc i) password) [] =
                  password ! i # drop (Suc i) password" by simp
        have il2: "interleave (drop (Suc i) password) [] = drop (Suc i) password"
          by (cases "drop (Suc i) password") auto
        show ?thesis
          using True p s IH by (subst specialMerge_loop.simps) (simp add: dp ds il2)
      qed
    next
      case p: False
      then have dp: "drop i password = []" "drop (Suc i) password = []" by auto
      from True p "1.prems" have s: "i < length seedValue" by auto
      then have ds: "drop i seedValue = seedValue ! i # drop (Suc i) seedValue"
        by (simp add: Cons_nth_drop_Suc)
      show ?thesis
        using True p s IH by (subst specialMerge_loop.simps) (simp add: dp ds)
    qed
  qed
qed

lemma specialMerge_interleave: "specialMerge password seedValue = interleave password seedValue"
  by (simp add: specialMerge_def Let_def specialMerge_loop_interleave max_def)

lemma hexdigit_lower: "hexdigit n \<in> set ''0123456789abcdef''"
proof -
  have "n mod 16 < length ''0123456789abcdef''" by simp
  then show ?thesis unfolding hexdigit_def by (rule nth_mem)
qed

lemma Sprintf_x_lower: "set (Sprintf_x bs) \<subseteq> set ''0123456789abcdef''"
  unfolding Sprintf_x_def hex_byte_def using hexdigit_lower by auto

lemma length_Sprintf_x: "length (Sprintf_x bs) = 2 * length bs"
  unfolding Sprintf_x_def hex_byte_def by (induction bs) auto

text \<open>
  C1. \<^verbatim>\<open>EncryptPasswordWithSeed(password, seed)\<close> is the lowercase hexadecimal rendering
  of the MD5 digest of the interleaving of password and seed; the rendering has two
  digits per digest byte, all of them in \<open>0-9a-f\<close>; the interleaving of \<open>ab\<close> and
  \<open>1234\<close> is \<open>a1b234\<close> and that of \<open>abcd\<close> and \<open>1\<close> is \<open>a1bcd\<close>.
\<close>

theorem C1_EncryptPasswordWithSeed_interleave:
  "EncryptPasswordWithSeed md5_Sum password seed = Sprintf_x (md5_Sum (interleave password seed))
   \<and> set (EncryptPasswordWithSeed md5_Sum password seed) \<subseteq> set ''0123456789abcdef''
   \<and> length (EncryptPasswordWithSeed md5_Sum password seed)
       = 2 * length (md5_Sum (interleave password seed))
   \<and> specialMerge password seed = interleave password seed
   \<and> specialMerge ''ab'' ''1234'' = ''a1b234''
   \<and> specialMerge ''abcd'' ''1'' = ''a1bcd''"
proof -
  have e: "EncryptPasswordWithSeed md5_Sum password seed
           = Sprintf_x (md5_Sum (interleave password seed))"
    by (simp add: EncryptPasswordWithSeed_def Let_def specialMerge_interleave)
  have l: "set (Sprintf_x (md5_Sum (interleave password seed))) \<subseteq> set ''0123456789abcdef''"
    by (rule Sprintf_x_lower)
  have n: "length (Sprintf_x (md5_Sum (interleave password seed)))
           = 2 * length (md5_Sum (interleave password seed))"
    by (rule length_Sprintf_x)
  have a: "specialMerge ''ab'' ''1234'' = ''a1b234''"
    by (simp add: specialMerge_interleave)
  have b: "specialMerge ''abcd'' ''1'' = ''a1bcd''"
    by (simp add: specialMerge_interleave)
  show ?thesis
    unfolding e using l n a b specialMerge_interleave by blast
qed

section \<open>Properties of the string helpers and of the token file\<close>

lemma Contains_single: "Contains s [x] \<longleftrightarrow> x \<in> set s"
  by (induction s) auto

lemma Index_single:
  "Index s [x] = (if x \<in> set s then int (length (takeWhile (\<lambda>c. c \<noteq> x) s)) else - 1)"
  by (induction s) (auto simp: Let_def)

lemma SplitN_2_single:
  assumes "x \<in> set s"
  shows "SplitN s [x] 2 = [takeWhile (\<lambda>c. c \<noteq> x) s, tl (dropWhile (\<lambda>c. c \<noteq> x) s)]"
proof -
  let ?n = "length (takeWhile (\<lambda>c. c \<noteq> x) s)"
  have t: "take ?n s = takeWhile (\<lambda>c. c \<noteq> x) s"
    by (rule takeWhile_eq_take [symmetric])
  have e: "dropWhile (\<lambda>c. c \<noteq> x) s = drop ?n s"
    by (rule dropWhile_eq_drop)
  have d: "drop (?n + 1) s = tl (dropWhile (\<lambda>c. c \<noteq> x) s)"
    unfolding e by (simp add: drop_Suc tl_drop)
  have "SplitN s [x] 2 = [take ?n s, drop (?n + 1) s]"
    using assms by (simp add: SplitN_def numeral_2_eq_2 Index_single Let_def)
  then show ?thesis by (simp only: t d)
qed

lemma SplitN_2_none: "x \<notin> set s \<Longrightarrow> SplitN s [x] 2 = [s]"
  by (simp add: SplitN_def numeral_2_eq_2 Index_single Let_def)

lemma trimLeading_none: "leadingSpaceLen runes s = 0 \<Longrightarrow> trimLeading runes s = s"
  by (subst trimLeading.simps) simp

lemma trimLeading_Nil: "trimLeading runes [] = []"
  by (subst trimLeading.simps) simp

lemma leadingSpaceLen_graphic:
  assumes "graphic c"
  shows "leadingSpaceLen spaceRunes (c # cs) = 0"
proof -
  have "\<forall>q \<in> set spaceRunes. \<not> prefix q (c # cs)"
    using assms unfolding spaceRunes_def graphic_def by auto
  then have "find (\<lambda>q. prefix q (c # cs)) spaceRunes = None"
    by (simp add: find_None_iff)
  then show ?thesis by (simp add: leadingSpaceLen_def)
qed

lemma trailingSpaceLen_graphic:
  assumes "graphic c"
  shows "leadingSpaceLen (map rev spaceRunes) (c # cs) = 0"
proof -
  have "\<forall>q \<in> set (map rev spaceRunes). \<not> prefix q (c # cs)"
    using assms unfolding spaceRunes_def graphic_def by auto
  then have "find (\<lambda>q. prefix q (c # cs)) (map rev spaceRunes) = None"
    by (simp add: find_None_iff)
  then show ?thesis by (simp add: leadingSpaceLen_def)
qed

lemma TrimSpace_graphic:
  assumes "s = [] \<or> (graphic (hd s) \<and> graphic (last s))"
  shows "TrimSpace s = s"
proof (cases s)
  case Nil
  then show ?thesis
    by (simp add: TrimSpace_def TrimLeftSpace_def TrimRightSpace_def trimLeading_Nil)
next
  case (Cons c cs)
  with assms have g: "graphic c" "graphic (last s)" by auto
  have l: "TrimLeftSpace s = s"
    unfolding TrimLeftSpace_def Cons using g(1) by (intro trimLeading_none leadingSpaceLen_graphic)
  have ne: "rev s \<noteq> []" using Cons by simp
  then have r: "rev s = hd (rev s) # tl (rev s)" by simp
  have d: "hd (rev s) = last s" using Cons by (simp add: hd_rev)
  have "trimLeading (map rev spaceRunes) (hd (rev s) # tl (rev s)) = hd (rev s) # tl (rev s)"
    using g(2) d by (intro trimLeading_none trailingSpaceLen_graphic) simp
  then have "trimLeading (map rev spaceRunes) (rev s) = rev s"
    using r by simp
  then have "TrimRightSpace s = s" by (simp add: TrimRightSpace_def)
  with l show ?thesis by (simp add: TrimSpace_def)
qed

lemma IsSupported_cases:
  "IsSupported m \<longleftrightarrow> m \<in> {''GS305EP'', ''GS305EPP'', ''GS308EP'', ''GS308EPP'', ''GS316EP'', ''GS316EPP'', ''GS30xEPx''}"
  unfolding IsSupported_def ModelGS305EP_def ModelGS305EPP_def ModelGS308EP_def ModelGS308EPP_def
    ModelGS316EP_def ModelGS316EPP_def ModelGS30xEPx_def by auto

lemma IsSupported_plain:
  assumes "IsSupported m"
  shows "TrimSpace m = m" and "CHR '':'' \<notin> set m" and "m \<noteq> []"
proof -
  from assms have c: "m \<in> {''GS305EP'', ''GS305EPP'', ''GS308EP'', ''GS308EPP'', ''GS316EP'', ''GS316EPP'', ''GS30xEPx''}"
    by (simp only: IsSupported_cases)
  then have "m = [] \<or> (graphic (hd m) \<and> graphic (last m))"
    by (auto simp: graphic_def)
  then show "TrimSpace m = m" by (rule TrimSpace_graphic)
  from c show "CHR '':'' \<notin> set m" by auto
  from c show "m \<noteq> []" by auto
qed

lemma takeWhile_colon_append:
  "CHR '':'' \<notin> set m \<Longrightarrow> takeWhile (\<lambda>c. c \<noteq> CHR '':'') (m @ CHR '':'' # t) = m"
  by (induction m) auto

lemma dropWhile_colon_append:
  "CHR '':'' \<notin> set m \<Longrightarrow> dropWhile (\<lambda>c. c \<noteq> CHR '':'') (m @ CHR '':'' # t) = CHR '':'' # t"
  by (induction m) auto

lemma File_GetToken_content:
  assumes "os_ReadFile fsys (getTokenFilename tmp dir addr) = Inr content"
  shows "File_GetToken tmp fsys dir addr =
     (if content = [] then
        Inl (NewAuthError ''token file is empty, please upgrade your token file'' None)
      else if CHR '':'' \<notin> set content then Inl (NewAuthError ''malformed token file'' None)
      else
        (let modelStr = TrimSpace (takeWhile (\<lambda>c. c \<noteq> CHR '':'') content);
             tok = TrimSpace (tl (dropWhile (\<lambda>c. c \<noteq> CHR '':'') content))
         in if \<not> IsSupported modelStr then
              Inl (NewModelError (''unknown model '' @ [CHR 0x27] @ modelStr @ [CHR 0x27]
                                   @ '' in token file'') None)
            else Inr (tok, modelStr)))"
  using assms
  by (simp add: File_GetToken_def Let_def Contains_single SplitN_2_single)

lemma File_GetToken_missing:
  assumes "os_ReadFile fsys (getTokenFilename tmp dir addr) = Inl err"
  shows "File_GetToken tmp fsys dir addr = Inl (NewAuthError ''failed to read token file'' (Some err))"
  using assms by (simp add: File_GetToken_def Let_def)

lemma File_StoreToken_ok:
  assumes "fst (File_StoreToken tmp fsys dir addr tok mdl) = None"
  shows "os_ReadFile (snd (File_StoreToken tmp fsys dir addr tok mdl)) (getTokenFilename tmp dir addr)
         = Inr (mdl @ '':'' @ tok)"
  using assms
  by (auto simp: File_StoreToken_def Let_def os_MkdirAll_def os_WriteFile_def os_ReadFile_def
      split: if_splits)

lemma File_DeleteToken_ok:
  assumes "fst (File_DeleteToken tmp fsys dir addr) = None"
  shows "os_ReadFile (snd (File_DeleteToken tmp fsys dir addr)) (getTokenFilename tmp dir addr)
         = Inl (OSError ENOENT)"
  using assms
  by (auto simp: File_DeleteToken_def Let_def os_Remove_def os_ReadFile_def os_IsNotExist_def
      split: if_splits option.splits)

lemma File_roundtrip:
  assumes "IsSupported mdl" and "fst (File_StoreToken tmp fsys dir addr tok mdl) = None"
  shows "File_GetToken tmp (snd (File_StoreToken tmp fsys dir addr tok mdl)) dir addr
         = Inr (TrimSpace tok, mdl)"
proof -
  note p = IsSupported_plain [OF assms(1)]
  have "File_GetToken tmp (snd (File_StoreToken tmp fsys dir addr tok mdl)) dir addr =
        (let modelStr = TrimSpace (takeWhile (\<lambda>c. c \<noteq> CHR '':'') (mdl @ '':'' @ tok));
             t = TrimSpace (tl (dropWhile (\<lambda>c. c \<noteq> CHR '':'') (mdl @ '':'' @ tok)))
         in if \<not> IsSupported modelStr then
              Inl (NewModelError (''unknown model '' @ [CHR 0x27] @ modelStr @ [CHR 0x27]
                                   @ '' in token file'') None)
            else Inr (t, modelStr))"
    by (subst File_GetToken_content [OF File_StoreToken_ok [OF assms(2)]]) simp
  also have "\<dots> = Inr (TrimSpace tok, mdl)"
    using assms(1) p by (simp add: Let_def takeWhile_colon_append dropWhile_colon_append)
  finally show ?thesis .
qed


section \<open>Properties of the model detector\<close>

lemma DetectFromHTML_unfold:
  "DetectFromHTML h =
     (if Contains h ''GS316EPP'' then ''GS316EPP''
      else if Contains h ''GS308EPP'' then ''GS308EPP''
      else if Contains h ''GS305EPP'' then ''GS305EPP''
      else if Contains h ''GS316EP'' then ''GS316EP''
      else if Contains h ''GS308EP'' then ''GS308EP''
      else if Contains h ''GS305EP'' then ''GS305EP''
      else if Contains h ''Redirect to Login'' \<or> Contains h ''redirect'' then ''GS30xEPx''
      else [])"
  by (simp add: DetectFromHTML_def specificModels_def)

lemma DetectFromHTML_PP_first:
  assumes "Contains h ''GS316EPP'' \<or> Contains h ''GS308EPP'' \<or> Contains h ''GS305EPP''"
  shows "DetectFromHTML h \<in> {''GS316EPP'', ''GS308EPP'', ''GS305EPP''}"
    and "Contains h (DetectFromHTML h)"
  using assms by (auto simp: DetectFromHTML_unfold)

lemma DetectFromHTML_fallback:
  assumes "\<forall>m \<in> set specificModels. \<not> Contains h m"
  shows "DetectFromHTML h =
           (if Contains h ''Redirect to Login'' \<or> Contains h ''redirect'' then ''GS30xEPx'' else [])"
  using assms by (simp add: DetectFromHTML_unfold specificModels_def)

text \<open>
  C2. \<^verbatim>\<open>DetectFromHTML\<close> returns the most specific model name in the fragment; a
  fragment with a \<open>PP\<close> name never yields the shorter prefix. On the fragment
  \<open><title>GS305EPP</title>\<close> the second copy of the function tries \<open>GS305EP\<close> before
  \<open>GS305EPP\<close> and returns the shorter \<open>GS305EP\<close>; the first copy returns \<open>GS305EPP\<close>.
\<close>

theorem C2_DetectFromHTML_2_short_name_first:
  "DetectFromHTML_2 ''<title>GS305EPP</title>'' = ''GS305EP''
   \<and> DetectFromHTML ''<title>GS305EPP</title>'' = ''GS305EPP''"
  by (simp add: DetectFromHTML_2_def DetectFromHTML_unfold)

section \<open>Properties of the token store\<close>

lemma IsSupported_GS305EP: "IsSupported ''GS305EP''"
  by (simp add: IsSupported_cases)

lemma StoreToken_File_empty_fs:
  "fst (StoreToken tmp (FileTokenManager dir, \<lparr>files = fm, denied = {}\<rparr>) addr tok mdl) = None"
  by (simp add: split_beta File_StoreToken_def Let_def os_MkdirAll_def os_WriteFile_def)

lemma DeleteToken_File_empty_fs:
  "fst (DeleteToken tmp (FileTokenManager dir, \<lparr>files = fm, denied = {}\<rparr>) addr) = None"
  by (simp add: split_beta File_DeleteToken_def Let_def os_Remove_def os_IsNotExist_def
      split: option.splits)

text \<open>
  C3 (as amended). For every address, token and model, the volatile manager returns
  exactly the stored pair after a store, fails with the authentication error
  \<open>token not found\<close> after a delete, and deletes a second time without error. For the
  durable manager and a supported model, a store that succeeds is followed by a get that
  returns the model and the token with its leading and trailing white space removed; a
  delete that succeeds is followed by a get that fails with the authentication error
  \<open>failed to read token file\<close> (caused by the missing file) and by a second delete
  without error; store and delete succeed whenever the operating system does not refuse
  the paths.
\<close>

theorem C3_TokenManager_roundtrip:
  "fst (StoreToken tmp (MemoryTokenManager tokens, fsys) addr tok mdl) = None
   \<and> GetToken tmp (snd (StoreToken tmp (MemoryTokenManager tokens, fsys) addr tok mdl)) addr
       = Inr (tok, mdl)
   \<and> fst (DeleteToken tmp (MemoryTokenManager tokens, fsys) addr) = None
   \<and> GetToken tmp (snd (DeleteToken tmp (MemoryTokenManager tokens, fsys) addr)) addr
       = Inl (NewAuthError ''token not found'' None)
   \<and> fst (DeleteToken tmp (snd (DeleteToken tmp (MemoryTokenManager tokens, fsys) addr)) addr) = None
   \<and> (IsSupported mdl \<and> fst (StoreToken tmp (FileTokenManager dir, fsys) addr tok mdl) = None
        \<longrightarrow> GetToken tmp (snd (StoreToken tmp (FileTokenManager dir, fsys) addr tok mdl)) addr
            = Inr (TrimSpace tok, mdl))
   \<and> (fst (DeleteToken tmp (FileTokenManager dir, fsys) addr) = None
        \<longrightarrow> GetToken tmp (snd (DeleteToken tmp (FileTokenManager dir, fsys) addr)) addr
              = Inl (NewAuthError ''failed to read token file'' (Some (OSError ENOENT)))
            \<and> fst (DeleteToken tmp (snd (DeleteToken tmp (FileTokenManager dir, fsys) addr)) addr)
              = None)
   \<and> (filepath_Join [dir, ''.config'', ''ntgrrc''] \<notin> denied fsys
        \<and> getTokenFilename tmp dir addr \<notin> denied fsys
        \<longrightarrow> fst (StoreToken tmp (FileTokenManager dir, fsys) addr tok mdl) = None
            \<and> fst (DeleteToken tmp (FileTokenManager dir, fsys) addr) = None)"
proof -
  have m: "fst (StoreToken tmp (MemoryTokenManager tokens, fsys) addr tok mdl) = None"
    "GetToken tmp (snd (StoreToken tmp (MemoryTokenManager tokens, fsys) addr tok mdl)) addr
       = Inr (tok, mdl)"
    "fst (DeleteToken tmp (MemoryTokenManager tokens, fsys) addr) = None"
    "GetToken tmp (snd (DeleteToken tmp (MemoryTokenManager tokens, fsys) addr)) addr
       = Inl (NewAuthError ''token not found'' None)"
    "fst (DeleteToken tmp (snd (DeleteToken tmp (MemoryTokenManager tokens, fsys) addr)) addr) = None"
    by (simp_all add: Memory_StoreToken_def Memory_GetToken_def Memory_DeleteToken_def)
  have f1: "GetToken tmp (snd (StoreToken tmp (FileTokenManager dir, fsys) addr tok mdl)) addr
            = Inr (TrimSpace tok, mdl)"
    if "IsSupported mdl" "fst (StoreToken tmp (FileTokenManager dir, fsys) addr tok mdl) = None"
    using File_roundtrip [of mdl tmp fsys dir addr tok] that
    by (simp add: split_beta)
  have f2: "GetToken tmp (snd (DeleteToken tmp (FileTokenManager dir, fsys) addr)) addr
              = Inl (NewAuthError ''failed to read token file'' (Some (OSError ENOENT)))
            \<and> fst (DeleteToken tmp (snd (DeleteToken tmp (FileTokenManager dir, fsys) addr)) addr)
              = None"
    if d: "fst (DeleteToken tmp (FileTokenManager dir, fsys) addr) = None"
  proof -
    from d have d': "fst (File_DeleteToken tmp fsys dir addr) = None"
      by (simp add: split_beta)
    have r: "os_ReadFile (snd (File_DeleteToken tmp fsys dir addr)) (getTokenFilename tmp dir addr)
             = Inl (OSError ENOENT)"
      by (rule File_DeleteToken_ok [OF d'])
    have g: "File_GetToken tmp (snd (File_DeleteToken tmp fsys dir addr)) dir addr
             = Inl (NewAuthError ''failed to read token file'' (Some (OSError ENOENT)))"
      by (rule File_GetToken_missing [OF r])
    have again: "fst (File_DeleteToken tmp (snd (File_DeleteToken tmp fsys dir addr)) dir addr) = None"
      using r
      by (auto simp: File_DeleteToken_def Let_def os_Remove_def os_ReadFile_def os_IsNotExist_def
          split: if_splits option.splits)
    show ?thesis using g again by (simp add: split_beta)
  qed
  have f3: "fst (StoreToken tmp (FileTokenManager dir, fsys) addr tok mdl) = None
            \<and> fst (DeleteToken tmp (FileTokenManager dir, fsys) addr) = None"
    if "filepath_Join [dir, ''.config'', ''ntgrrc''] \<notin> denied fsys"
       "getTokenFilename tmp dir addr \<notin> denied fsys"
    using that
    by (auto simp: split_beta File_StoreToken_def File_DeleteToken_def Let_def os_MkdirAll_def
        os_WriteFile_def os_Remove_def os_IsNotExist_def split: option.splits)
  show ?thesis using m f1 f2 f3 by blast
qed


theorem C3_TokenManager_roundtrip_witness:
  "GetToken ''/tmp''
     (snd (StoreToken ''/tmp'' (FileTokenManager ''/d'', \<lparr>files = Map.empty, denied = {}\<rparr>)
             ''192.168.0.1'' ''tok1'' ''GS305EP'')) ''192.168.0.1''
     = Inr (''tok1'', ''GS305EP'')
   \<and> GetToken ''/tmp''
        (snd (DeleteToken ''/tmp'' (FileTokenManager ''/d'', \<lparr>files = Map.empty, denied = {}\<rparr>)
                ''192.168.0.1'')) ''192.168.0.1''
       = Inl (NewAuthError ''failed to read token file'' (Some (OSError ENOENT)))
   \<and> GetToken ''/tmp''
        (snd (StoreToken ''/tmp'' (MemoryTokenManager Map.empty, \<lparr>files = Map.empty, denied = {}\<rparr>)
                ''192.168.0.1'' ''tok1'' ''GS305EP'')) ''192.168.0.1''
       = Inr (''tok1'', ''GS305EP'')"
proof -
  have t: "TrimSpace ''tok1'' = ''tok1''"
    by (rule TrimSpace_graphic) (simp add: graphic_def)
  note c = C3_TokenManager_roundtrip [where tmp = "''/tmp''" and dir = "''/d''"
      and fsys = "\<lparr>files = Map.empty, denied = {}\<rparr>" and addr = "''192.168.0.1''"
      and tok = "''tok1''" and mdl = "''GS305EP''" and tokens = Map.empty]
  show ?thesis
    using c IsSupported_GS305EP
      StoreToken_File_empty_fs [of "''/tmp''" "''/d''" Map.empty "''192.168.0.1''" "''tok1''" "''GS305EP''"]
      DeleteToken_File_empty_fs [of "''/tmp''" "''/d''" Map.empty "''192.168.0.1''"]
    unfolding t by blast
qed

text \<open>
  The claim as stated fails for the durable manager: the token \<open>" tok1"\<close> is stored
  without error and read back as \<open>"tok1"\<close>, and the get after a delete does not fail with
  the error \<open>token not found\<close> of the volatile manager.
\<close>

theorem C3_FileTokenManager_trims_counterexample:
  "fst (StoreToken ''/tmp'' (FileTokenManager ''/d'', \<lparr>files = Map.empty, denied = {}\<rparr>)
          ''192.168.0.1'' '' tok1'' ''GS305EP'') = None
   \<and> GetToken ''/tmp''
        (snd (StoreToken ''/tmp'' (FileTokenManager ''/d'', \<lparr>files = Map.empty, denied = {}\<rparr>)
                ''192.168.0.1'' '' tok1'' ''GS305EP'')) ''192.168.0.1''
       = Inr (''tok1'', ''GS305EP'')
   \<and> GetToken ''/tmp''
        (snd (StoreToken ''/tmp'' (FileTokenManager ''/d'', \<lparr>files = Map.empty, denied = {}\<rparr>)
                ''192.168.0.1'' '' tok1'' ''GS305EP'')) ''192.168.0.1''
       \<noteq> Inr ('' tok1'', ''GS305EP'')
   \<and> GetToken ''/tmp''
        (snd (DeleteToken ''/tmp'' (FileTokenManager ''/d'', \<lparr>files = Map.empty, denied = {}\<rparr>)
                ''192.168.0.1'')) ''192.168.0.1''
       \<noteq> Inl (NewAuthError ''token not found'' None)"
proof -
  let ?fs = "\<lparr>files = Map.empty, denied = {}\<rparr>"
  have s: "fst (StoreToken ''/tmp'' (FileTokenManager ''/d'', ?fs) ''192.168.0.1'' '' tok1'' ''GS305EP'')
           = None"
    by (rule StoreToken_File_empty_fs)
  then have s': "fst (File_StoreToken ''/tmp'' ?fs ''/d'' ''192.168.0.1'' '' tok1'' ''GS305EP'') = None"
    by (simp add: split_beta)
  have t: "TrimSpace '' tok1'' = ''tok1''"
    by code_simp
  have g: "GetToken ''/tmp''
             (snd (StoreToken ''/tmp'' (FileTokenManager ''/d'', ?fs) ''192.168.0.1'' '' tok1'' ''GS305EP''))
             ''192.168.0.1'' = Inr (''tok1'', ''GS305EP'')"
    using File_roundtrip [OF IsSupported_GS305EP s'] by (simp add: split_beta t)
  have d': "fst (File_DeleteToken ''/tmp'' ?fs ''/d'' ''192.168.0.1'') = None"
    using DeleteToken_File_empty_fs [of "''/tmp''" "''/d''" Map.empty "''192.168.0.1''"]
    by (simp add: split_beta)
  have d: "GetToken ''/tmp'' (snd (DeleteToken ''/tmp'' (FileTokenManager ''/d'', ?fs) ''192.168.0.1''))
             ''192.168.0.1''
           = Inl (NewAuthError ''failed to read token file'' (Some (OSError ENOENT)))"
    using File_GetToken_missing [OF File_DeleteToken_ok [OF d']] by (simp add: split_beta)
  have n: "NewAuthError ''failed to read token file'' (Some (OSError ENOENT))
           \<noteq> NewAuthError ''token not found'' None"
    by (simp add: NewAuthError_def NewError_def)
  show ?thesis
    unfolding g d using s n by simp
qed

text \<open>
  C4 (as amended). What \<^verbatim>\<open>FileTokenManager.GetToken\<close> returns is decided by the file: a
  missing file gives the error \<open>failed to read token file\<close>; an empty file the error
  \<open>token file is empty, please upgrade your token file\<close>, different from the error of
  the missing and of the malformed file; a file without a colon the error
  \<open>malformed token file\<close>; otherwise the text before the first colon, trimmed, is the
  model, and everything after the first colon, trimmed, is the token, further colons
  included: an unsupported model gives an error of kind Model, a supported one the pair.
\<close>

theorem C4_File_GetToken_contents:
  assumes "getTokenFilename tmp dir addr \<notin> denied fsys"
  shows
  "File_GetToken tmp fsys dir addr =
     (case files fsys (getTokenFilename tmp dir addr) of
        None \<Rightarrow> Inl (NewAuthError ''failed to read token file'' (Some (OSError ENOENT)))
      | Some content \<Rightarrow>
          if content = [] then
            Inl (NewAuthError ''token file is empty, please upgrade your token file'' None)
          else if CHR '':'' \<notin> set content then Inl (NewAuthError ''malformed token file'' None)
          else
            (let modelStr = TrimSpace (takeWhile (\<lambda>c. c \<noteq> CHR '':'') content);
                 tok = TrimSpace (tl (dropWhile (\<lambda>c. c \<noteq> CHR '':'') content))
             in if IsSupported modelStr then Inr (tok, modelStr)
                else Inl (NewModelError (''unknown model '' @ [CHR 0x27] @ modelStr @ [CHR 0x27]
                                          @ '' in token file'') None)))
   \<and> NewAuthError ''token file is empty, please upgrade your token file'' None
       \<noteq> NewAuthError ''failed to read token file'' (Some (OSError ENOENT))
   \<and> NewAuthError ''token file is empty, please upgrade your token file'' None
       \<noteq> NewAuthError ''malformed token file'' None
   \<and> errorKind (NewModelError msg None) = Some ErrorTypeModel"
proof -
  have e: "NewAuthError ''token file is empty, please upgrade your token file'' None
             \<noteq> NewAuthError ''failed to read token file'' (Some (OSError ENOENT))"
    "NewAuthError ''token file is empty, please upgrade your token file'' None
             \<noteq> NewAuthError ''malformed token file'' None"
    "errorKind (NewModelError msg None) = Some ErrorTypeModel"
    by (simp_all add: NewAuthError_def NewModelError_def NewError_def)
  show ?thesis
  proof (cases "files fsys (getTokenFilename tmp dir addr)")
    case None
    with assms have "os_ReadFile fsys (getTokenFilename tmp dir addr) = Inl (OSError ENOENT)"
      by (simp add: os_ReadFile_def)
    from File_GetToken_missing [OF this] None e show ?thesis by simp
  next
    case (Some content)
    with assms have "os_ReadFile fsys (getTokenFilename tmp dir addr) = Inr content"
      by (simp add: os_ReadFile_def)
    from File_GetToken_content [OF this] Some e show ?thesis by (simp add: Let_def)
  qed
qed


lemma TrimSpace_GS305EP: "TrimSpace ''GS305EP'' = ''GS305EP''"
  by (rule TrimSpace_graphic) (simp add: graphic_def)

theorem C4_File_GetToken_contents_witness:
  "File_GetToken ''/tmp''
     \<lparr>files = [getTokenFilename ''/tmp'' ''/d'' ''sw1'' \<mapsto> ''GS305EP:abc123''], denied = {}\<rparr>
     ''/d'' ''sw1'' = Inr (''abc123'', ''GS305EP'')
   \<and> File_GetToken ''/tmp''
        \<lparr>files = [getTokenFilename ''/tmp'' ''/d'' ''sw1'' \<mapsto> []], denied = {}\<rparr>
        ''/d'' ''sw1''
       = Inl (NewAuthError ''token file is empty, please upgrade your token file'' None)
   \<and> File_GetToken ''/tmp''
        \<lparr>files = [getTokenFilename ''/tmp'' ''/d'' ''sw1'' \<mapsto> ''tokenonly''], denied = {}\<rparr>
        ''/d'' ''sw1''
       = Inl (NewAuthError ''malformed token file'' None)
   \<and> File_GetToken ''/tmp''
        \<lparr>files = [getTokenFilename ''/tmp'' ''/d'' ''sw1'' \<mapsto> ''GS999:token123''], denied = {}\<rparr>
        ''/d'' ''sw1''
       = Inl (NewModelError (''unknown model '' @ [CHR 0x27] @ ''GS999'' @ [CHR 0x27]
                              @ '' in token file'') None)
   \<and> File_GetToken ''/tmp'' \<lparr>files = Map.empty, denied = {}\<rparr> ''/d'' ''sw1''
       = Inl (NewAuthError ''failed to read token file'' (Some (OSError ENOENT)))"
proof -
  have t1: "TrimSpace ''abc123'' = ''abc123''"
    by (rule TrimSpace_graphic) (simp add: graphic_def)
  have t2: "TrimSpace ''GS999'' = ''GS999''"
    by (rule TrimSpace_graphic) (simp add: graphic_def)
  have n: "\<not> IsSupported ''GS999''"
    by (simp add: IsSupported_cases)
  have a: "File_GetToken ''/tmp''
     \<lparr>files = [getTokenFilename ''/tmp'' ''/d'' ''sw1'' \<mapsto> ''GS305EP:abc123''], denied = {}\<rparr>
     ''/d'' ''sw1'' = Inr (''abc123'', ''GS305EP'')"
    using C4_File_GetToken_contents [where tmp = "''/tmp''" and dir = "''/d''" and addr = "''sw1''"
        and fsys = "\<lparr>files = [getTokenFilename ''/tmp'' ''/d'' ''sw1'' \<mapsto> ''GS305EP:abc123''],
                     denied = {}\<rparr>"]
    by (simp add: t1 TrimSpace_GS305EP IsSupported_GS305EP)
  have b: "File_GetToken ''/tmp''
        \<lparr>files = [getTokenFilename ''/tmp'' ''/d'' ''sw1'' \<mapsto> []], denied = {}\<rparr>
        ''/d'' ''sw1''
       = Inl (NewAuthError ''token file is empty, please upgrade your token file'' None)"
    using C4_File_GetToken_contents [where tmp = "''/tmp''" and dir = "''/d''" and addr = "''sw1''"
        and fsys = "\<lparr>files = [getTokenFilename ''/tmp'' ''/d'' ''sw1'' \<mapsto> []], denied = {}\<rparr>"]
    by simp
  have c: "File_GetToken ''/tmp''
        \<lparr>files = [getTokenFilename ''/tmp'' ''/d'' ''sw1'' \<mapsto> ''tokenonly''], denied = {}\<rparr>
        ''/d'' ''sw1''
       = Inl (NewAuthError ''malformed token file'' None)"
    using C4_File_GetToken_contents [where tmp = "''/tmp''" and dir = "''/d''" and addr = "''sw1''"
        and fsys = "\<lparr>files = [getTokenFilename ''/tmp'' ''/d'' ''sw1'' \<mapsto> ''tokenonly''],
                     denied = {}\<rparr>"]
    by simp
  have d: "File_GetToken ''/tmp''
        \<lparr>files = [getTokenFilename ''/tmp'' ''/d'' ''sw1'' \<mapsto> ''GS999:token123''], denied = {}\<rparr>
        ''/d'' ''sw1''
       = Inl (NewModelError (''unknown model '' @ [CHR 0x27] @ ''GS999'' @ [CHR 0x27]
                              @ '' in token file'') None)"
    using C4_File_GetToken_contents [where tmp = "''/tmp''" and dir = "''/d''" and addr = "''sw1''"
        and fsys = "\<lparr>files = [getTokenFilename ''/tmp'' ''/d'' ''sw1'' \<mapsto> ''GS999:token123''],
                     denied = {}\<rparr>"]
    by (simp add: t2 n)
  have e: "File_GetToken ''/tmp'' \<lparr>files = Map.empty, denied = {}\<rparr> ''/d'' ''sw1''
       = Inl (NewAuthError ''failed to read token file'' (Some (OSError ENOENT)))"
    using C4_File_GetToken_contents [where tmp = "''/tmp''" and dir = "''/d''" and addr = "''sw1''"
        and fsys = "\<lparr>files = Map.empty, denied = {}\<rparr>"]
    by simp
  show ?thesis using a b c d e by blast
qed

text \<open>
  The claim as stated fails on trailing segments: the file \<open>GS305EP:abc123:extra\<close> is
  read without error, and the token is \<open>abc123:extra\<close>, not \<open>abc123\<close>.
\<close>

theorem C4_extra_segments_kept_counterexample:
  "File_GetToken ''/tmp''
     \<lparr>files = [getTokenFilename ''/tmp'' ''/d'' ''sw1'' \<mapsto> ''GS305EP:abc123:extra''], denied = {}\<rparr>
     ''/d'' ''sw1'' = Inr (''abc123:extra'', ''GS305EP'')
   \<and> File_GetToken ''/tmp''
     \<lparr>files = [getTokenFilename ''/tmp'' ''/d'' ''sw1'' \<mapsto> ''GS305EP:abc123:extra''], denied = {}\<rparr>
     ''/d'' ''sw1'' \<noteq> Inr (''abc123'', ''GS305EP'')"
proof -
  let ?fs = "\<lparr>files = [getTokenFilename ''/tmp'' ''/d'' ''sw1'' \<mapsto> ''GS305EP:abc123:extra''],
              denied = {}\<rparr>"
  have t: "TrimSpace ''abc123:extra'' = ''abc123:extra''"
    by (rule TrimSpace_graphic) (simp add: graphic_def)
  have r: "os_ReadFile ?fs (getTokenFilename ''/tmp'' ''/d'' ''sw1'') = Inr ''GS305EP:abc123:extra''"
    by (simp add: os_ReadFile_def)
  have "File_GetToken ''/tmp'' ?fs ''/d'' ''sw1'' = Inr (''abc123:extra'', ''GS305EP'')"
    by (subst File_GetToken_content [OF r]) (simp add: t TrimSpace_GS305EP IsSupported_GS305EP)
  then show ?thesis by simp
qed


end
